theory Spec2Isabelle
  imports Complex_Main "HOL-Library.Stream" "HOL-Library.Monad_Syntax"
begin

section \<open>The value type \<open>FTYPE\<close> (C++ \<open>double\<close>)\<close>

text \<open>
  \<open>#define FTYPE double\<close>. A finite double is modelled by the real number it denotes
  and arithmetic on finite values is exact (no rounding, no overflow, no signed zero).
  The three special values of IEEE 754 are kept, because the source divides by
  envelope times that several instruments set to \<open>0.0\<close>: a division by zero is not a
  trap in C++ \<open>double\<close> arithmetic, it yields an infinity or a NaN that then flows
  through the following multiplications, additions and comparisons.
\<close>

datatype ftype = Fin real | PInf | NInf | NaN


fun fneg :: "ftype \<Rightarrow> ftype" where
  "fneg (Fin a) = Fin (- a)"
| "fneg PInf = NInf"
| "fneg NInf = PInf"
| "fneg NaN = NaN"

text \<open>\<open>a + b\<close>: \<open>inf + (-inf)\<close> is NaN, NaN is absorbing.\<close>

fun fadd :: "ftype \<Rightarrow> ftype \<Rightarrow> ftype" where
  "fadd (Fin a) (Fin b) = Fin (a + b)"
| "fadd NaN _ = NaN"
| "fadd _ NaN = NaN"
| "fadd PInf NInf = NaN"
| "fadd NInf PInf = NaN"
| "fadd PInf _ = PInf"
| "fadd _ PInf = PInf"
| "fadd NInf _ = NInf"
| "fadd _ NInf = NInf"

definition fsub :: "ftype \<Rightarrow> ftype \<Rightarrow> ftype" where
  "fsub a b = fadd a (fneg b)"

text \<open>The sign of a product with an infinity; \<open>inf * 0\<close> is NaN.\<close>

definition inf_times :: "bool \<Rightarrow> real \<Rightarrow> ftype" where
  "inf_times positive b =
     (if b = 0 then NaN else if (0 < b) = positive then PInf else NInf)"

fun fmul :: "ftype \<Rightarrow> ftype \<Rightarrow> ftype" where
  "fmul (Fin a) (Fin b) = Fin (a * b)"
| "fmul NaN _ = NaN"
| "fmul _ NaN = NaN"
| "fmul PInf (Fin b) = inf_times True b"
| "fmul NInf (Fin b) = inf_times False b"
| "fmul (Fin a) PInf = inf_times True a"
| "fmul (Fin a) NInf = inf_times False a"
| "fmul PInf PInf = PInf"
| "fmul NInf NInf = PInf"
| "fmul PInf NInf = NInf"
| "fmul NInf PInf = NInf"

text \<open>
  \<open>a / b\<close>. A finite nonzero value divided by zero is an infinity of the sign of the
  numerator (every divisor of the source is a stored time or a literal, so the zero is
  \<open>+0.0\<close>); \<open>0 / 0\<close> and \<open>inf / inf\<close> are NaN; a finite value divided by an infinity
  is zero.
\<close>

fun fdiv :: "ftype \<Rightarrow> ftype \<Rightarrow> ftype" where
  "fdiv (Fin a) (Fin b) =
     (if b \<noteq> 0 then Fin (a / b)
      else if 0 < a then PInf else if a < 0 then NInf else NaN)"
| "fdiv NaN _ = NaN"
| "fdiv _ NaN = NaN"
| "fdiv (Fin a) PInf = Fin 0"
| "fdiv (Fin a) NInf = Fin 0"
| "fdiv PInf (Fin b) = (if 0 \<le> b then PInf else NInf)"
| "fdiv NInf (Fin b) = (if 0 \<le> b then NInf else PInf)"
| "fdiv PInf PInf = NaN"
| "fdiv PInf NInf = NaN"
| "fdiv NInf PInf = NaN"
| "fdiv NInf NInf = NaN"

text \<open>Comparisons: every comparison with a NaN is false.\<close>

fun fle :: "ftype \<Rightarrow> ftype \<Rightarrow> bool" where
  "fle (Fin a) (Fin b) = (a \<le> b)"
| "fle NaN _ = False"
| "fle _ NaN = False"
| "fle NInf _ = True"
| "fle _ PInf = True"
| "fle PInf _ = False"
| "fle _ NInf = False"

fun flt :: "ftype \<Rightarrow> ftype \<Rightarrow> bool" where
  "flt (Fin a) (Fin b) = (a < b)"
| "flt NaN _ = False"
| "flt _ NaN = False"
| "flt PInf _ = False"
| "flt _ NInf = False"
| "flt NInf _ = True"
| "flt _ PInf = True"

definition fgt :: "ftype \<Rightarrow> ftype \<Rightarrow> bool" where
  "fgt a b = flt b a"

definition fge :: "ftype \<Rightarrow> ftype \<Rightarrow> bool" where
  "fge a b = fle b a"

text \<open>\<open>sin\<close>, \<open>asin\<close> and \<open>fmod\<close> of \<open>libm\<close>: NaN outside their domain.\<close>

fun fsin :: "ftype \<Rightarrow> ftype" where
  "fsin (Fin a) = Fin (sin a)"
| "fsin _ = NaN"

fun fasin :: "ftype \<Rightarrow> ftype" where
  "fasin (Fin a) = (if \<bar>a\<bar> \<le> 1 then Fin (arcsin a) else NaN)"
| "fasin _ = NaN"

definition trunc :: "real \<Rightarrow> real" where
  "trunc x = (if 0 \<le> x then of_int \<lfloor>x\<rfloor> else of_int \<lceil>x\<rceil>)"

fun ffmod :: "ftype \<Rightarrow> ftype \<Rightarrow> ftype" where
  "ffmod (Fin a) (Fin b) = (if b = 0 then NaN else Fin (a - b * trunc (a / b)))"
| "ffmod (Fin a) PInf = Fin a"
| "ffmod (Fin a) NInf = Fin a"
| "ffmod _ _ = NaN"

section \<open>Scale to frequency conversion\<close>

definition SCALE_DEFAULT :: int where
  "SCALE_DEFAULT = 0"

text \<open>
  \<open>pow\<close> is the function of the C library on doubles. What it returns (its
  rounding, its overflow to infinity for large exponents, its underflow to 0 for very
  negative ones) is not fixed by the source, so the function is a parameter of \<open>scale\<close>
  and of everything that calls \<open>scale\<close>: base and exponent go in, the result comes
  out.
\<close>

type_synonym libm_pow = "ftype \<Rightarrow> ftype \<Rightarrow> ftype"

text \<open>
  \<open>scale\<close>: both labels of the switch select the same statement, so the scale
  id does not matter. The base is the decimal literal of the source; the \<open>int\<close>
  exponent is converted to \<open>double\<close>.
\<close>

definition semitone :: real where
  "semitone = 10594630943592952645618252949463 / 10000000000000000000000000000000"

definition scale :: "libm_pow \<Rightarrow> int \<Rightarrow> int \<Rightarrow> ftype" where
  "scale pow nNoteID nScaleID = fmul (Fin 8) (pow (Fin semitone) (Fin (of_int nNoteID)))"

section \<open>Envelopes\<close>

record envelope_adsr =
  dAttackTime :: ftype
  dDecayTime :: ftype
  dSustainAmplitude :: ftype
  dReleaseTime :: ftype
  dStartAmplitude :: ftype

text \<open>The constructor \<open>envelope_adsr()\<close>.\<close>

definition envelope_adsr_init :: envelope_adsr where
  "envelope_adsr_init =
     \<lparr>dAttackTime = Fin 0.1, dDecayTime = Fin 0.1, dSustainAmplitude = Fin 1.0,
      dReleaseTime = Fin 0.2, dStartAmplitude = Fin 1.0\<rparr>"

text \<open>
  \<open>envelope_adsr::amplitude\<close>. The three \<open>if\<close> statements of each branch are
  consecutive, not chained, and are kept in the source's order: \<open>a0\<close>, \<open>a1\<close>, \<open>a2\<close>,
  \<open>a3\<close> are the successive values of \<open>dAmplitude\<close> (of \<open>dReleaseAmplitude\<close> in the
  else branch).
\<close>

definition amplitude :: "envelope_adsr \<Rightarrow> ftype \<Rightarrow> ftype \<Rightarrow> ftype \<Rightarrow> ftype" where
  "amplitude e dTime dTimeOn dTimeOff =
     (let dAmplitude =
        (if fgt dTimeOn dTimeOff then
           (let dLifeTime = fsub dTime dTimeOn;
                a0 = Fin 0;
                a1 = (if fle dLifeTime (dAttackTime e)
                      then fmul (fdiv dLifeTime (dAttackTime e)) (dStartAmplitude e)
                      else a0);
                a2 = (if fgt dLifeTime (dAttackTime e) \<and>
                         fle dLifeTime (fadd (dAttackTime e) (dDecayTime e))
                      then fadd (fmul (fdiv (fsub dLifeTime (dAttackTime e)) (dDecayTime e))
                                      (fsub (dSustainAmplitude e) (dStartAmplitude e)))
                                (dStartAmplitude e)
                      else a1);
                a3 = (if fgt dLifeTime (fadd (dAttackTime e) (dDecayTime e))
                      then dSustainAmplitude e
                      else a2)
            in a3)
         else
           (let dLifeTime = fsub dTimeOff dTimeOn;
                r0 = Fin 0;
                r1 = (if fle dLifeTime (dAttackTime e)
                      then fmul (fdiv dLifeTime (dAttackTime e)) (dStartAmplitude e)
                      else r0);
                r2 = (if fgt dLifeTime (dAttackTime e) \<and>
                         fle dLifeTime (fadd (dAttackTime e) (dDecayTime e))
                      then fadd (fmul (fdiv (fsub dLifeTime (dAttackTime e)) (dDecayTime e))
                                      (fsub (dSustainAmplitude e) (dStartAmplitude e)))
                                (dStartAmplitude e)
                      else r1);
                dReleaseAmplitude =
                     (if fgt dLifeTime (fadd (dAttackTime e) (dDecayTime e))
                      then dSustainAmplitude e
                      else r2)
            in fadd (fmul (fdiv (fsub dTime dTimeOff) (dReleaseTime e))
                          (fsub (Fin 0) dReleaseAmplitude))
                    dReleaseAmplitude))
      in if fle dAmplitude (Fin 0.01) then Fin 0 else dAmplitude)"

text \<open>\<open>synth::env\<close>: the call through the envelope's virtual function.\<close>

definition synth_env :: "ftype \<Rightarrow> envelope_adsr \<Rightarrow> ftype \<Rightarrow> ftype \<Rightarrow> ftype" where
  "synth_env dTime e dTimeOn dTimeOff = amplitude e dTime dTimeOn dTimeOff"


section \<open>Utilities and the multi-function oscillator\<close>

text \<open>\<open>w\<close>: converts frequency (Hz) to angular velocity.\<close>

definition w :: "ftype \<Rightarrow> ftype" where
  "w dHertz = fmul (fmul dHertz (Fin 2)) (Fin pi)"

definition OSC_SINE :: int where "OSC_SINE = 0"
definition OSC_SQUARE :: int where "OSC_SQUARE = 1"
definition OSC_TRIANGLE :: int where "OSC_TRIANGLE = 2"
definition OSC_SAW_ANA :: int where "OSC_SAW_ANA = 3"
definition OSC_SAW_DIG :: int where "OSC_SAW_DIG = 4"
definition OSC_NOISE :: int where "OSC_NOISE = 5"

text \<open>
  \<open>rand()\<close> of the C library has a hidden state. Whatever the generator, its state
  determines the sequence of values the following calls return, so the state is
  modelled by that sequence: a call returns its head and leaves its tail.
  \<open>RAND_MAX\<close> is the C library's constant (the value of glibc).
\<close>

type_synonym rng = "nat stream"

definition rand :: "rng \<Rightarrow> nat \<times> rng" where
  "rand g = (shd g, stl g)"

definition RAND_MAX :: nat where
  "RAND_MAX = 2147483647"

text \<open>
  The loop of the \<open>OSC_SAW_ANA\<close> case,
  \<open>for (FTYPE n = 1.0; n < dCustom; n++) dOutput += (sin(n*dFreq)) / n;\<close>.
  It does not end when \<open>dCustom\<close> is infinite: not returning is the value \<open>None\<close>.
\<close>

partial_function (option) saw_ana_loop :: "ftype \<Rightarrow> ftype \<Rightarrow> ftype \<Rightarrow> ftype \<Rightarrow> ftype option" where
  "saw_ana_loop dCustom dFreq n dOutput =
     (if flt n dCustom
      then saw_ana_loop dCustom dFreq (fadd n (Fin 1))
             (fadd dOutput (fdiv (fsin (fmul n dFreq)) n))
      else Some dOutput)"

text \<open>
  \<open>osc\<close>. The default arguments of the source (\<open>nType = OSC_SINE\<close>,
  \<open>dLFOHertz = 0.0\<close>, \<open>dLFOAmplitude = 0.0\<close>, \<open>dCustom = 50.0\<close>) are written out at
  every call. The generator state is passed in and returned; only \<open>OSC_NOISE\<close>
  advances it.
\<close>

definition osc ::
  "rng \<Rightarrow> ftype \<Rightarrow> ftype \<Rightarrow> int \<Rightarrow> ftype \<Rightarrow> ftype \<Rightarrow> ftype \<Rightarrow> (ftype \<times> rng) option" where
  "osc g dTime dHertz nType dLFOHertz dLFOAmplitude dCustom =
     (let dFreq = fadd (fmul (w dHertz) dTime)
                       (fmul (fmul dLFOAmplitude dHertz) (fsin (fmul (w dLFOHertz) dTime)))
      in if nType = OSC_SINE then Some (fsin dFreq, g)
         else if nType = OSC_SQUARE then
           Some (if fgt (fsin dFreq) (Fin 0) then Fin 1 else Fin (- 1), g)
         else if nType = OSC_TRIANGLE then
           Some (fmul (fasin (fsin dFreq)) (fdiv (Fin 2) (Fin pi)), g)
         else if nType = OSC_SAW_ANA then
           (case saw_ana_loop dCustom dFreq (Fin 1) (Fin 0) of
              None \<Rightarrow> None
            | Some dOutput \<Rightarrow> Some (fmul dOutput (fdiv (Fin 2) (Fin pi)), g))
         else if nType = OSC_SAW_DIG then
           Some (fmul (fdiv (Fin 2) (Fin pi))
                      (fsub (fmul (fmul dHertz (Fin pi)) (ffmod dTime (fdiv (Fin 1) dHertz)))
                            (fdiv (Fin pi) (Fin 2))), g)
         else if nType = OSC_NOISE then
           (case rand g of
              (r, g') \<Rightarrow>
                Some (fsub (fmul (Fin 2) (fdiv (Fin (real r)) (Fin (real RAND_MAX)))) (Fin 1), g'))
         else Some (Fin 0, g))"

section \<open>Instruments and notes\<close>

text \<open>
  \<open>instrument_base\<close> and its six subclasses. The field \<open>kind\<close> is the dynamic type of
  the object, which selects the body of the virtual function \<open>sound\<close>.
\<close>

datatype instrument_kind =
  Bell | Bell8 | Harmonica | DrumKick | DrumSnare | DrumHiHat

record instrument_base =
  dVolume :: ftype
  env :: envelope_adsr
  fMaxLifeTime :: ftype
  name :: string
  kind :: instrument_kind

text \<open>
  \<open>struct note\<close>. The pointer \<open>channel\<close> is \<open>None\<close> for \<open>nullptr\<close> and otherwise
  holds the instrument it points to: the instruments are globals that nothing
  modifies after their construction, and no two of them are equal, so that comparing
  the pointers is comparing the objects.
\<close>

record synth_note =
  note_id :: int
  on :: ftype
  off :: ftype
  active :: bool
  channel :: "instrument_base option"

text \<open>The constructor \<open>note()\<close>.\<close>

definition note_init :: synth_note where
  "note_init = \<lparr>note_id = 0, on = Fin 0, off = Fin 0, active = False, channel = None\<rparr>"

definition instrument_bell :: instrument_base where
  "instrument_bell =
     \<lparr>dVolume = Fin 1.0,
      env = envelope_adsr_init\<lparr>dAttackTime := Fin 0.01, dDecayTime := Fin 1.0,
              dSustainAmplitude := Fin 0.0, dReleaseTime := Fin 1.0\<rparr>,
      fMaxLifeTime = Fin 3.0, name = ''Bell'', kind = Bell\<rparr>"

definition instrument_bell8 :: instrument_base where
  "instrument_bell8 =
     \<lparr>dVolume = Fin 1.0,
      env = envelope_adsr_init\<lparr>dAttackTime := Fin 0.01, dDecayTime := Fin 0.5,
              dSustainAmplitude := Fin 0.8, dReleaseTime := Fin 1.0\<rparr>,
      fMaxLifeTime = Fin 3.0, name = ''8-Bit Bell'', kind = Bell8\<rparr>"

definition instrument_harmonica :: instrument_base where
  "instrument_harmonica =
     \<lparr>dVolume = Fin 0.3,
      env = envelope_adsr_init\<lparr>dAttackTime := Fin 0.00, dDecayTime := Fin 1.0,
              dSustainAmplitude := Fin 0.95, dReleaseTime := Fin 0.5\<rparr>,
      fMaxLifeTime = Fin (- 1.0), name = ''Harmonica'', kind = Harmonica\<rparr>"

definition instrument_drumkick :: instrument_base where
  "instrument_drumkick =
     \<lparr>dVolume = Fin 1.0,
      env = envelope_adsr_init\<lparr>dAttackTime := Fin 0.01, dDecayTime := Fin 0.15,
              dSustainAmplitude := Fin 0.0, dReleaseTime := Fin 0.0\<rparr>,
      fMaxLifeTime = Fin 1.5, name = ''Drum Kick'', kind = DrumKick\<rparr>"


definition instrument_drumhihat :: instrument_base where
  "instrument_drumhihat =
     \<lparr>dVolume = Fin 0.5,
      env = envelope_adsr_init\<lparr>dAttackTime := Fin 0.01, dDecayTime := Fin 0.05,
              dSustainAmplitude := Fin 0.0, dReleaseTime := Fin 0.0\<rparr>,
      fMaxLifeTime = Fin 1.0, name = ''Drum HiHat'', kind = DrumHiHat\<rparr>"

text \<open>
  The six bodies of \<open>sound\<close>. \<open>bNoteFinished\<close> is a reference parameter: its value
  comes in and the possibly updated value goes out, with the sample and the generator
  state. \<open>None\<close> is an oscillator call that does not return.
\<close>

definition instrument_bell_sound ::
  "libm_pow \<Rightarrow> instrument_base \<Rightarrow> ftype \<Rightarrow> synth_note \<Rightarrow> bool \<Rightarrow> rng \<Rightarrow> (ftype \<times> bool \<times> rng) option" where
  "instrument_bell_sound pow this dTime n bNoteFinished g =
     (let dAmplitude = synth_env dTime (env this) (on n) (off n);
          bNoteFinished = (if fle dAmplitude (Fin 0.0) then True else bNoteFinished)
      in do {
        (o1, g) \<leftarrow> osc g (fsub dTime (on n)) (scale pow (note_id n + 12) SCALE_DEFAULT)
                     OSC_SINE (Fin 5.0) (Fin 0.001) (Fin 50.0);
        (o2, g) \<leftarrow> osc g (fsub dTime (on n)) (scale pow (note_id n + 24) SCALE_DEFAULT)
                     OSC_SINE (Fin 0.0) (Fin 0.0) (Fin 50.0);
        (o3, g) \<leftarrow> osc g (fsub dTime (on n)) (scale pow (note_id n + 36) SCALE_DEFAULT)
                     OSC_SINE (Fin 0.0) (Fin 0.0) (Fin 50.0);
        let dSound = fadd (fadd (fmul (Fin 1.00) o1) (fmul (Fin 0.50) o2)) (fmul (Fin 0.25) o3);
        Some (fmul (fmul dAmplitude dSound) (dVolume this), bNoteFinished, g)
      })"

definition instrument_bell8_sound ::
  "libm_pow \<Rightarrow> instrument_base \<Rightarrow> ftype \<Rightarrow> synth_note \<Rightarrow> bool \<Rightarrow> rng \<Rightarrow> (ftype \<times> bool \<times> rng) option" where
  "instrument_bell8_sound pow this dTime n bNoteFinished g =
     (let dAmplitude = synth_env dTime (env this) (on n) (off n);
          bNoteFinished = (if fle dAmplitude (Fin 0.0) then True else bNoteFinished)
      in do {
        (o1, g) \<leftarrow> osc g (fsub dTime (on n)) (scale pow (note_id n) SCALE_DEFAULT)
                     OSC_SQUARE (Fin 5.0) (Fin 0.001) (Fin 50.0);
        (o2, g) \<leftarrow> osc g (fsub dTime (on n)) (scale pow (note_id n + 12) SCALE_DEFAULT)
                     OSC_SINE (Fin 0.0) (Fin 0.0) (Fin 50.0);
        (o3, g) \<leftarrow> osc g (fsub dTime (on n)) (scale pow (note_id n + 24) SCALE_DEFAULT)
                     OSC_SINE (Fin 0.0) (Fin 0.0) (Fin 50.0);
        let dSound = fadd (fadd (fmul (Fin 1.00) o1) (fmul (Fin 0.50) o2)) (fmul (Fin 0.25) o3);
        Some (fmul (fmul dAmplitude dSound) (dVolume this), bNoteFinished, g)
      })"

definition instrument_harmonica_sound ::
  "libm_pow \<Rightarrow> instrument_base \<Rightarrow> ftype \<Rightarrow> synth_note \<Rightarrow> bool \<Rightarrow> rng \<Rightarrow> (ftype \<times> bool \<times> rng) option" where
  "instrument_harmonica_sound pow this dTime n bNoteFinished g =
     (let dAmplitude = synth_env dTime (env this) (on n) (off n);
          bNoteFinished = (if fle dAmplitude (Fin 0.0) then True else bNoteFinished)
      in do {
        (o1, g) \<leftarrow> osc g (fsub (on n) dTime) (scale pow (note_id n - 12) SCALE_DEFAULT)
                     OSC_SAW_ANA (Fin 5.0) (Fin 0.001) (Fin 100);
        (o2, g) \<leftarrow> osc g (fsub dTime (on n)) (scale pow (note_id n) SCALE_DEFAULT)
                     OSC_SQUARE (Fin 5.0) (Fin 0.001) (Fin 50.0);
        (o3, g) \<leftarrow> osc g (fsub dTime (on n)) (scale pow (note_id n + 12) SCALE_DEFAULT)
                     OSC_SQUARE (Fin 0.0) (Fin 0.0) (Fin 50.0);
        (o4, g) \<leftarrow> osc g (fsub dTime (on n)) (scale pow (note_id n + 24) SCALE_DEFAULT)
                     OSC_NOISE (Fin 0.0) (Fin 0.0) (Fin 50.0);
        let dSound = fadd (fadd (fadd (fmul (Fin 1.0) o1) (fmul (Fin 1.00) o2))
                                (fmul (Fin 0.50) o3))
                          (fmul (Fin 0.05) o4);
        Some (fmul (fmul dAmplitude dSound) (dVolume this), bNoteFinished, g)
      })"

definition instrument_drumkick_sound ::
  "libm_pow \<Rightarrow> instrument_base \<Rightarrow> ftype \<Rightarrow> synth_note \<Rightarrow> bool \<Rightarrow> rng \<Rightarrow> (ftype \<times> bool \<times> rng) option" where
  "instrument_drumkick_sound pow this dTime n bNoteFinished g =
     (let dAmplitude = synth_env dTime (env this) (on n) (off n);
          bNoteFinished = (if fgt (fMaxLifeTime this) (Fin 0.0) \<and>
                              fge (fsub dTime (on n)) (fMaxLifeTime this)
                           then True else bNoteFinished)
      in do {
        (o1, g) \<leftarrow> osc g (fsub dTime (on n)) (scale pow (note_id n - 36) SCALE_DEFAULT)
                     OSC_SINE (Fin 1.0) (Fin 1.0) (Fin 50.0);
        (o2, g) \<leftarrow> osc g (fsub dTime (on n)) (Fin 0)
                     OSC_NOISE (Fin 0.0) (Fin 0.0) (Fin 50.0);
        let dSound = fadd (fmul (Fin 0.99) o1) (fmul (Fin 0.01) o2);
        Some (fmul (fmul dAmplitude dSound) (dVolume this), bNoteFinished, g)
      })"

definition instrument_drumsnare_sound ::
  "libm_pow \<Rightarrow> instrument_base \<Rightarrow> ftype \<Rightarrow> synth_note \<Rightarrow> bool \<Rightarrow> rng \<Rightarrow> (ftype \<times> bool \<times> rng) option" where
  "instrument_drumsnare_sound pow this dTime n bNoteFinished g =
     (let dAmplitude = synth_env dTime (env this) (on n) (off n);
          bNoteFinished = (if fgt (fMaxLifeTime this) (Fin 0.0) \<and>
                              fge (fsub dTime (on n)) (fMaxLifeTime this)
                           then True else bNoteFinished)
      in do {
        (o1, g) \<leftarrow> osc g (fsub dTime (on n)) (scale pow (note_id n - 24) SCALE_DEFAULT)
                     OSC_SINE (Fin 0.5) (Fin 1.0) (Fin 50.0);
        (o2, g) \<leftarrow> osc g (fsub dTime (on n)) (Fin 0)
                     OSC_NOISE (Fin 0.0) (Fin 0.0) (Fin 50.0);
        let dSound = fadd (fmul (Fin 0.5) o1) (fmul (Fin 0.5) o2);
        Some (fmul (fmul dAmplitude dSound) (dVolume this), bNoteFinished, g)
      })"

definition instrument_drumhihat_sound ::
  "libm_pow \<Rightarrow> instrument_base \<Rightarrow> ftype \<Rightarrow> synth_note \<Rightarrow> bool \<Rightarrow> rng \<Rightarrow> (ftype \<times> bool \<times> rng) option" where
  "instrument_drumhihat_sound pow this dTime n bNoteFinished g =
     (let dAmplitude = synth_env dTime (env this) (on n) (off n);
          bNoteFinished = (if fgt (fMaxLifeTime this) (Fin 0.0) \<and>
                              fge (fsub dTime (on n)) (fMaxLifeTime this)
                           then True else bNoteFinished)
      in do {
        (o1, g) \<leftarrow> osc g (fsub dTime (on n)) (scale pow (note_id n - 12) SCALE_DEFAULT)
                     OSC_SQUARE (Fin 1.5) (Fin 1) (Fin 50.0);
        (o2, g) \<leftarrow> osc g (fsub dTime (on n)) (Fin 0)
                     OSC_NOISE (Fin 0.0) (Fin 0.0) (Fin 50.0);
        let dSound = fadd (fmul (Fin 0.1) o1) (fmul (Fin 0.9) o2);
        Some (fmul (fmul dAmplitude dSound) (dVolume this), bNoteFinished, g)
      })"

text \<open>The virtual call \<open>channel->sound(dTime, n, bNoteFinished)\<close>.\<close>

definition sound ::
  "libm_pow \<Rightarrow> instrument_base \<Rightarrow> ftype \<Rightarrow> synth_note \<Rightarrow> bool \<Rightarrow> rng \<Rightarrow> (ftype \<times> bool \<times> rng) option" where
  "sound pow this dTime n bNoteFinished g =
     (case kind this of
        Bell \<Rightarrow> instrument_bell_sound pow this dTime n bNoteFinished g
      | Bell8 \<Rightarrow> instrument_bell8_sound pow this dTime n bNoteFinished g
      | Harmonica \<Rightarrow> instrument_harmonica_sound pow this dTime n bNoteFinished g
      | DrumKick \<Rightarrow> instrument_drumkick_sound pow this dTime n bNoteFinished g
      | DrumSnare \<Rightarrow> instrument_drumsnare_sound pow this dTime n bNoteFinished g
      | DrumHiHat \<Rightarrow> instrument_drumhihat_sound pow this dTime n bNoteFinished g)"

section \<open>The sequencer\<close>

text \<open>
  What C++ leaves undefined is an error value of the model: reading a string beyond
  its terminator, and dereferencing the \<open>end()\<close> iterator of a vector.
\<close>

datatype error = OutOfBounds | EndDereference

text \<open>\<open>struct sequencer::channel\<close>.\<close>

record seq_channel =
  instrument :: "instrument_base option"
  sBeat :: string

record sequencer =
  nBeats :: int
  nSubBeats :: int
  fTempo :: ftype
  fBeatTime :: ftype
  fAccumulate :: ftype
  nCurrentBeat :: int
  nTotalBeats :: int
  vecChannel :: "seq_channel list"
  vecNotes :: "synth_note list"

text \<open>The constructor \<open>sequencer(tempo, beats, subbeats)\<close>; both vectors start empty.\<close>

definition sequencer_init :: "ftype \<Rightarrow> int \<Rightarrow> int \<Rightarrow> sequencer" where
  "sequencer_init tempo beats subbeats =
     \<lparr>nBeats = beats, nSubBeats = subbeats, fTempo = tempo,
      fBeatTime = fdiv (fdiv (Fin 60.0) tempo) (Fin (of_int subbeats)),
      fAccumulate = Fin 0, nCurrentBeat = 0, nTotalBeats = subbeats * beats,
      vecChannel = [], vecNotes = []\<rparr>"

text \<open>\<open>AddInstrument\<close>: the new channel's \<open>sBeat\<close> is the empty string.\<close>

definition AddInstrument :: "instrument_base option \<Rightarrow> sequencer \<Rightarrow> sequencer" where
  "AddInstrument inst s =
     s\<lparr>vecChannel := vecChannel s @ [\<lparr>instrument = inst, sBeat = []\<rparr>]\<rparr>"

text \<open>
  \<open>sBeat[pos]\<close> of a \<open>wstring\<close>: the character at \<open>pos\<close>, the terminator at
  \<open>pos == size()\<close>, undefined beyond (and for a negative \<open>int\<close>, which converts to a
  huge \<open>size_t\<close>).
\<close>

definition wstring_at :: "string \<Rightarrow> int \<Rightarrow> error + char" where
  "wstring_at str pos =
     (if 0 \<le> pos \<and> nat pos < length str then Inr (str ! nat pos)
      else if pos = int (length str) then Inr (CHR 0x00)
      else Inl OutOfBounds)"

text \<open>\<open>vecChannel[c]\<close> of a \<open>vector\<close>: undefined outside \<open>0 .. size() - 1\<close>.\<close>

definition vector_at :: "'a list \<Rightarrow> int \<Rightarrow> error + 'a" where
  "vector_at v pos =
     (if 0 \<le> pos \<and> nat pos < length v then Inr (v ! nat pos) else Inl OutOfBounds)"

text \<open>
  The loop \<open>for (auto v : vecChannel)\<close> inside \<open>Update\<close>: the first argument is what
  is left to iterate, \<open>chans\<close> is \<open>vecChannel\<close>, \<open>beat\<close> is \<open>nCurrentBeat\<close>, \<open>c\<close>
  the counter and \<open>emitted\<close> the sequencer's \<open>vecNotes\<close> so far.
\<close>

fun channel_loop ::
  "seq_channel list \<Rightarrow> seq_channel list \<Rightarrow> int \<Rightarrow> int \<Rightarrow> synth_note list \<Rightarrow> error + synth_note list" where
  "channel_loop [] chans beat c emitted = Inr emitted"
| "channel_loop (v # vs) chans beat c emitted =
     (case wstring_at (sBeat v) beat of
        Inl e \<Rightarrow> Inl e
      | Inr x \<Rightarrow>
          if x = CHR ''X'' then
            (case vector_at chans c of
               Inl e \<Rightarrow> Inl e
             | Inr ch \<Rightarrow>
                 channel_loop vs chans beat (c + 1)
                   (emitted @ [note_init\<lparr>channel := instrument ch, active := True, note_id := 64\<rparr>]))
          else channel_loop vs chans beat (c + 1) emitted)"

text \<open>
  The loop \<open>while (fAccumulate >= fBeatTime)\<close> of \<open>Update\<close>. It does not end when
  \<open>fBeatTime\<close> is zero or negative: not returning is the value \<open>None\<close>.
\<close>

partial_function (option) update_loop :: "sequencer \<Rightarrow> (error + sequencer) option" where
  "update_loop s =
     (if fge (fAccumulate s) (fBeatTime s) then
        (let s1 = s\<lparr>fAccumulate := fsub (fAccumulate s) (fBeatTime s)\<rparr>;
             s2 = s1\<lparr>nCurrentBeat := nCurrentBeat s1 + 1\<rparr>;
             s3 = (if nCurrentBeat s2 \<ge> nTotalBeats s2 then s2\<lparr>nCurrentBeat := 0\<rparr> else s2)
         in case channel_loop (vecChannel s3) (vecChannel s3) (nCurrentBeat s3) 0 (vecNotes s3) of
              Inl e \<Rightarrow> Some (Inl e)
            | Inr ns \<Rightarrow> update_loop (s3\<lparr>vecNotes := ns\<rparr>))
      else Some (Inr s))"

text \<open>\<open>Update\<close>: the returned \<open>int\<close> and the sequencer it leaves.\<close>

definition Update :: "ftype \<Rightarrow> sequencer \<Rightarrow> (error + int \<times> sequencer) option" where
  "Update fElapsedTime s =
     (let s1 = s\<lparr>vecNotes := []\<rparr>;
          s2 = s1\<lparr>fAccumulate := fadd (fAccumulate s1) fElapsedTime\<rparr>
      in case update_loop s2 of
           None \<Rightarrow> None
         | Some (Inl e) \<Rightarrow> Some (Inl e)
         | Some (Inr s') \<Rightarrow> Some (Inr (int (length (vecNotes s')), s')))"

section \<open>The note registry and the mixer\<close>

text \<open>
  \<open>safe_remove\<close>: erases every element on which \<open>f\<close> is false, keeping the order of
  the others.
\<close>

fun safe_remove :: "'a list \<Rightarrow> ('a \<Rightarrow> bool) \<Rightarrow> 'a list" where
  "safe_remove [] f = []"
| "safe_remove (n # v) f = (if \<not> f n then safe_remove v f else n # safe_remove v f)"

text \<open>
  The first statements of the body of the loop of \<open>MakeNoise\<close>, for the note \<open>n\<close>:
  \<open>bNoteFinished = false\<close>, \<open>dSound = 0\<close>, and the call of the note's instrument
  when \<open>n.channel != nullptr\<close>.
\<close>

definition render_note ::
  "libm_pow \<Rightarrow> ftype \<Rightarrow> synth_note \<Rightarrow> rng \<Rightarrow> (ftype \<times> bool \<times> rng) option" where
  "render_note pow dTime n g =
     (case channel n of
        None \<Rightarrow> Some (Fin 0, False, g)
      | Some inst \<Rightarrow> sound pow inst dTime n False g)"

text \<open>
  The loop \<open>for (auto &n : vecNotes)\<close> of \<open>MakeNoise\<close>: the notes still to visit, the
  running \<open>dMixedOutput\<close> and the generator state go in; the final sum, the visited
  notes with their updated \<open>active\<close> flags and the generator state come out.
\<close>

fun mix_loop ::
  "libm_pow \<Rightarrow> ftype \<Rightarrow> synth_note list \<Rightarrow> ftype \<Rightarrow> rng \<Rightarrow> (ftype \<times> synth_note list \<times> rng) option" where
  "mix_loop pow dTime [] dMixedOutput g = Some (dMixedOutput, [], g)"
| "mix_loop pow dTime (n # ns) dMixedOutput g =
     (case render_note pow dTime n g of
        None \<Rightarrow> None
      | Some (dSound, bNoteFinished, g') \<Rightarrow>
          (case mix_loop pow dTime ns (fadd dMixedOutput dSound) g' of
             None \<Rightarrow> None
           | Some (out, ns', g'') \<Rightarrow>
               Some (out, (if bNoteFinished then n\<lparr>active := False\<rparr> else n) # ns', g'')))"

text \<open>
  \<open>MakeNoise\<close>; \<open>registry\<close> is the global \<open>vecNotes\<close>. The returned sample, the
  registry it leaves and the generator state.
\<close>

definition MakeNoise ::
  "libm_pow \<Rightarrow> ftype \<Rightarrow> synth_note list \<Rightarrow> rng \<Rightarrow> (ftype \<times> synth_note list \<times> rng) option" where
  "MakeNoise pow dTime registry g =
     (case mix_loop pow dTime registry (Fin 0.0) g of
        None \<Rightarrow> None
      | Some (dMixedOutput, ns, g') \<Rightarrow>
          Some (fmul dMixedOutput (Fin 0.2), safe_remove ns active, g'))"

section \<open>The keyboard handler of \<open>main\<close>\<close>

text \<open>The global \<open>instHarm\<close>.\<close>

definition instHarm :: instrument_base where
  "instHarm = instrument_harmonica"

text \<open>
  \<open>find_if\<close> with the handler's predicate: the position of the first note with
  \<open>id == k + 64\<close> and \<open>channel == &instHarm\<close>; \<open>None\<close> is \<open>vecNotes.end()\<close>.
\<close>

fun find_if :: "(synth_note \<Rightarrow> bool) \<Rightarrow> synth_note list \<Rightarrow> nat option" where
  "find_if f [] = None"
| "find_if f (n # ns) = (if f n then Some 0 else map_option Suc (find_if f ns))"

definition noteFound :: "int \<Rightarrow> synth_note list \<Rightarrow> nat option" where
  "noteFound k registry =
     find_if (\<lambda>item. note_id item = k + 64 \<and> channel item = Some instHarm) registry"

text \<open>
  The body of \<open>if (event.type == SDL_KEYDOWN && ... scancode == code && ... repeat == 0)\<close>
  for the key of index \<open>k\<close>, with \<open>time\<close> the value read from \<open>data.time\<close>.
\<close>

definition key_down :: "int \<Rightarrow> ftype \<Rightarrow> synth_note list \<Rightarrow> synth_note list" where
  "key_down k time registry =
     (case noteFound k registry of
        None \<Rightarrow>
          registry @ [note_init\<lparr>note_id := k + 64, on := time, active := True,
                                 channel := Some instHarm\<rparr>]
      | Some i \<Rightarrow>
          if fgt (off (registry ! i)) (on (registry ! i))
          then registry[i := (registry ! i)\<lparr>on := time, active := True\<rparr>]
          else registry)"

text \<open>
  The body of \<open>if (event.type == SDL_KEYUP && ... scancode == code)\<close>: \<open>noteFound\<close> is
  dereferenced without a comparison with \<open>vecNotes.end()\<close>.
\<close>

definition key_up :: "int \<Rightarrow> ftype \<Rightarrow> synth_note list \<Rightarrow> error + synth_note list" where
  "key_up k time registry =
     (case noteFound k registry of
        None \<Rightarrow> Inl EndDereference
      | Some i \<Rightarrow>
          if flt (off (registry ! i)) (on (registry ! i))
          then Inr (registry[i := (registry ! i)\<lparr>off := time\<rparr>])
          else Inr registry)"

section \<open>What a tick obtains from each note\<close>

text \<open>
  For the statements about \<open>MakeNoise\<close>: the pairs (sample, finished) that one tick
  at \<open>dTime\<close> obtains from the notes of the registry, in the order of the registry,
  the generator state passing from each note to the next as in the loop.
\<close>

fun samples :: "libm_pow \<Rightarrow> ftype \<Rightarrow> synth_note list \<Rightarrow> rng \<Rightarrow> (ftype \<times> bool) list option" where
  "samples pow dTime [] g = Some []"
| "samples pow dTime (n # ns) g =
     (case render_note pow dTime n g of
        None \<Rightarrow> None
      | Some (dSound, bNoteFinished, g') \<Rightarrow>
          (case samples pow dTime ns g' of
             None \<Rightarrow> None
           | Some rs \<Rightarrow> Some ((dSound, bNoteFinished) # rs)))"

text \<open>
  For the closed examples, which need some function in the place of \<open>pow\<close>: the
  power without rounding, of a positive finite base.
\<close>

definition pow_exact :: libm_pow where
  "pow_exact b x =
     (case (b, x) of
        (Fin b', Fin x') \<Rightarrow> if 0 < b' then Fin (b' powr x') else NaN
      | _ \<Rightarrow> NaN)"

text \<open>
  For the statements about the sequencer: \<open>Update\<close> called once for each elapsed time
  of a list, the numbers of notes it returns added up.
\<close>

fun feed :: "ftype list \<Rightarrow> int \<Rightarrow> sequencer \<Rightarrow> (error + int \<times> sequencer) option" where
  "feed [] emitted s = Some (Inr (emitted, s))"
| "feed (fElapsedTime # ts) emitted s =
     (case Update fElapsedTime s of
        None \<Rightarrow> None
      | Some (Inl e) \<Rightarrow> Some (Inl e)
      | Some (Inr (k, s')) \<Rightarrow> feed ts (emitted + k) s')"

section \<open>Arithmetic on finite values\<close>

lemma fsub_Fin [simp]: "fsub (Fin a) (Fin b) = Fin (a - b)"
  by (simp add: fsub_def)

lemma fgt_Fin [simp]: "fgt (Fin a) (Fin b) = (b < a)"
  by (simp add: fgt_def)

lemma fge_Fin [simp]: "fge (Fin a) (Fin b) = (b \<le> a)"
  by (simp add: fge_def)

section \<open>The ADSR envelope\<close>

text \<open>
  C1. The claim reads a note with \<open>on = 0\<close> and \<open>off = 0\<close> as held. The test of
  \<open>amplitude\<close> is the strict \<open>dTimeOn > dTimeOff\<close>, so equal times select the else
  branch: with the constructor's envelope the amplitude at \<open>t = attack\<close> and far
  beyond \<open>attack + decay\<close> is 0, where the claim expects the start and the sustain
  amplitude, both 1.
\<close>

theorem adsr_equal_times_released:
  "amplitude envelope_adsr_init (Fin 0.1) (Fin 0) (Fin 0) = Fin 0 \<and>
   dAttackTime envelope_adsr_init = Fin 0.1 \<and>
   dStartAmplitude envelope_adsr_init = Fin 1 \<and>
   amplitude envelope_adsr_init (Fin 100) (Fin 0) (Fin 0) = Fin 0 \<and>
   dSustainAmplitude envelope_adsr_init = Fin 1"
  by (simp add: amplitude_def envelope_adsr_init_def Let_def)

text \<open>A held note queried within \<open>\<delta>\<close> of the end of its attack phase.\<close>

lemma held_near_attack:
  assumes "dAttackTime e = Fin a" and "dDecayTime e = Fin d"
    and "dSustainAmplitude e = Fin s" and "dStartAmplitude e = Fin st"
    and "0 < a" and "0 \<le> d" and "tOff < tOn"
    and "0 \<le> \<delta>" and "\<delta> \<le> a" and "\<delta> \<le> d" and "\<bar>t - (tOn + a)\<bar> \<le> \<delta>"
  shows "\<exists>x. amplitude e (Fin t) (Fin tOn) (Fin tOff) = (if x \<le> 0.01 then Fin 0 else Fin x) \<and>
             \<bar>x - st\<bar> \<le> \<delta> * (\<bar>st\<bar> / a + \<bar>s - st\<bar> / d)"
proof (cases "t - tOn \<le> a")
  case True
  define u where "u = (a - (t - tOn)) / a"
  have u: "0 \<le> u" "u \<le> \<delta> / a"
    using True assms by (simp_all add: u_def divide_right_mono)
  have amp: "amplitude e (Fin t) (Fin tOn) (Fin tOff) =
      (if (t - tOn) / a * st \<le> 0.01 then Fin 0 else Fin ((t - tOn) / a * st))"
    using True assms by (simp add: amplitude_def Let_def)
  have "(t - tOn) / a * st - st = - (u * st)"
    using assms by (simp add: u_def field_simps)
  then have "\<bar>(t - tOn) / a * st - st\<bar> = u * \<bar>st\<bar>"
    using u by (simp add: abs_mult)
  also have "\<dots> \<le> \<delta> / a * \<bar>st\<bar>"
    using u(2) by (rule mult_right_mono) simp
  also have "\<dots> = \<delta> * (\<bar>st\<bar> / a)"
    by simp
  also have "\<dots> \<le> \<delta> * (\<bar>st\<bar> / a + \<bar>s - st\<bar> / d)"
    using assms by (intro mult_left_mono) simp_all
  finally show ?thesis
    using amp by blast
next
  case False
  then have dpos: "0 < d" and le: "t - tOn \<le> a + d"
    using assms by linarith+
  define u where "u = (t - tOn - a) / d"
  have u: "0 \<le> u" "u \<le> \<delta> / d"
    using False dpos assms by (simp_all add: u_def divide_right_mono)
  have amp: "amplitude e (Fin t) (Fin tOn) (Fin tOff) =
      (if u * (s - st) + st \<le> 0.01 then Fin 0 else Fin (u * (s - st) + st))"
    using False le assms by (simp add: amplitude_def Let_def u_def)
  have "\<bar>u * (s - st) + st - st\<bar> = u * \<bar>s - st\<bar>"
    using u by (simp add: abs_mult)
  also have "\<dots> \<le> \<delta> / d * \<bar>s - st\<bar>"
    using u(2) by (rule mult_right_mono) simp
  also have "\<dots> = \<delta> * (\<bar>s - st\<bar> / d)"
    by simp
  also have "\<dots> \<le> \<delta> * (\<bar>st\<bar> / a + \<bar>s - st\<bar> / d)"
    using assms by (intro mult_left_mono) simp_all
  finally show ?thesis
    using amp by blast
qed

text \<open>A held query never reads the release timestamp.\<close>

lemma amplitude_held:
  assumes "fgt tOn tOff" and "fgt tOn tOff'"
  shows "amplitude e t tOn tOff = amplitude e t tOn tOff'"
  using assms by (simp add: amplitude_def)

text \<open>
  C1, as amended. A note with \<open>off < on\<close> is in the held regime, whatever the release
  time of the envelope. For finite attack, decay, sustain and start parameters with a
  positive attack time and a non-negative decay time: the amplitude is 0 at \<open>t = on\<close>;
  at \<open>t = on + attack\<close> it is approximately the start amplitude, that is, a query
  within \<open>\<delta>\<close> of that time (with \<open>\<delta>\<close> at most the attack and the decay time) returns
  a value within \<open>\<delta> * (|start| / attack + |sustain - start| / decay)\<close> of it, and
  the start amplitude itself for \<open>\<delta> = 0\<close>; once the lifetime exceeds
  \<open>attack + decay\<close> it is the sustain amplitude (a value of at most 0.01 is returned
  as 0); and the amplitude is the same for every \<open>off\<close> below \<open>on\<close>. A note with
  \<open>off = on\<close> is not held: it is evaluated by the release branch, and its amplitude is
  0 at every time when the release time is finite and not 0.
\<close>

theorem adsr_held_regime:
  assumes "dAttackTime e = Fin a" and "dDecayTime e = Fin d"
    and "dSustainAmplitude e = Fin s" and "dStartAmplitude e = Fin st"
    and "0 < a" and "0 \<le> d"
  shows "(tOff < tOn \<longrightarrow>
            amplitude e (Fin tOn) (Fin tOn) (Fin tOff) = Fin 0 \<and>
            (\<forall>t \<delta>. 0 \<le> \<delta> \<and> \<delta> \<le> a \<and> \<delta> \<le> d \<and> \<bar>t - (tOn + a)\<bar> \<le> \<delta> \<longrightarrow>
               (\<exists>x. amplitude e (Fin t) (Fin tOn) (Fin tOff) =
                      (if x \<le> 0.01 then Fin 0 else Fin x) \<and>
                    \<bar>x - st\<bar> \<le> \<delta> * (\<bar>st\<bar> / a + \<bar>s - st\<bar> / d))) \<and>
            (\<forall>t. a + d < t - tOn \<longrightarrow>
               amplitude e (Fin t) (Fin tOn) (Fin tOff) =
                 (if s \<le> 0.01 then Fin 0 else Fin s)) \<and>
            (\<forall>t tOff'. tOff' < tOn \<longrightarrow>
               amplitude e t (Fin tOn) (Fin tOff') = amplitude e t (Fin tOn) (Fin tOff))) \<and>
         (\<forall>r. dReleaseTime e = Fin r \<and> r \<noteq> 0 \<longrightarrow>
            (\<forall>t. amplitude e (Fin t) (Fin tOn) (Fin tOn) = Fin 0))"
proof -
  have start: "amplitude e (Fin tOn) (Fin tOn) (Fin tOff) = Fin 0" if "tOff < tOn"
    using assms that by (simp add: amplitude_def Let_def)
  have near: "\<exists>x. amplitude e (Fin t) (Fin tOn) (Fin tOff) =
                      (if x \<le> 0.01 then Fin 0 else Fin x) \<and>
                    \<bar>x - st\<bar> \<le> \<delta> * (\<bar>st\<bar> / a + \<bar>s - st\<bar> / d)"
    if "tOff < tOn" "0 \<le> \<delta> \<and> \<delta> \<le> a \<and> \<delta> \<le> d \<and> \<bar>t - (tOn + a)\<bar> \<le> \<delta>" for t \<delta>
    using held_near_attack [OF assms that(1), of \<delta> t] that(2) by blast
  have sustain: "amplitude e (Fin t) (Fin tOn) (Fin tOff) =
                 (if s \<le> 0.01 then Fin 0 else Fin s)"
    if "tOff < tOn" "a + d < t - tOn" for t
    using assms that by (simp add: amplitude_def Let_def)
  have held: "amplitude e t (Fin tOn) (Fin tOff') = amplitude e t (Fin tOn) (Fin tOff)"
    if "tOff < tOn" "tOff' < tOn" for t tOff'
    using amplitude_held [of "Fin tOn" "Fin tOff'" "Fin tOff" e t] that by simp
  have equal: "amplitude e (Fin t) (Fin tOn) (Fin tOn) = Fin 0"
    if "dReleaseTime e = Fin r \<and> r \<noteq> 0" for r t
    using assms that by (simp add: amplitude_def Let_def)
  from start near sustain held equal show ?thesis
    by blast
qed

theorem adsr_held_regime_witness:
  "amplitude (env instrument_drumkick) (Fin 1) (Fin 1) (Fin 0) = Fin 0 \<and>
   amplitude (env instrument_drumkick) (Fin (1 + 0.01)) (Fin 1) (Fin 0) = Fin 1 \<and>
   (\<exists>x. amplitude (env instrument_drumkick) (Fin 1.0099) (Fin 1) (Fin 0) = Fin x \<and>
        \<bar>x - 1\<bar> \<le> 0.011) \<and>
   amplitude (env instrument_drumkick) (Fin 2) (Fin 1) (Fin 0) = Fin 0 \<and>
   dReleaseTime (env instrument_drumkick) = Fin 0 \<and>
   amplitude envelope_adsr_init (Fin 2) (Fin 1) (Fin 1) = Fin 0"
proof -
  have k: "dAttackTime (env instrument_drumkick) = Fin 0.01"
      "dDecayTime (env instrument_drumkick) = Fin 0.15"
      "dSustainAmplitude (env instrument_drumkick) = Fin 0"
      "dStartAmplitude (env instrument_drumkick) = Fin 1"
      "(0::real) < 0.01" "(0::real) \<le> 0.15"
    by (simp_all add: instrument_drumkick_def envelope_adsr_init_def)
  have pos: "(0::real) < 1"
    by simp
  note held = adsr_held_regime [OF k, of 0 1, THEN conjunct1, THEN mp, OF pos]
  note at_on = held [THEN conjunct1]
  note near = held [THEN conjunct2, THEN conjunct1, rule_format]
  note sustain = held [THEN conjunct2, THEN conjunct2, THEN conjunct1, rule_format]
  have "(0::real) \<le> 0 \<and> (0::real) \<le> 0.01 \<and> (0::real) \<le> 0.15 \<and> \<bar>(1 + 0.01) - (1 + 0.01)\<bar> \<le> (0::real)"
    by simp
  from near [OF this] obtain x0 where
    x0: "amplitude (env instrument_drumkick) (Fin (1 + 0.01)) (Fin 1) (Fin 0) =
      (if x0 \<le> 0.01 then Fin 0 else Fin x0)"
    and "\<bar>x0 - 1\<bar> \<le> 0 * (\<bar>1\<bar> / 0.01 + \<bar>0 - 1\<bar> / 0.15)"
    by blast
  then have "x0 = 1"
    by simp
  with x0 have 2: "amplitude (env instrument_drumkick) (Fin (1 + 0.01)) (Fin 1) (Fin 0) = Fin 1"
    by simp
  have "(0::real) \<le> 0.0001 \<and> (0.0001::real) \<le> 0.01 \<and> (0.0001::real) \<le> 0.15 \<and>
        \<bar>1.0099 - (1 + 0.01)\<bar> \<le> (0.0001::real)"
    by simp
  from near [OF this] obtain x where
    x: "amplitude (env instrument_drumkick) (Fin 1.0099) (Fin 1) (Fin 0) =
      (if x \<le> 0.01 then Fin 0 else Fin x)"
    and xb: "\<bar>x - 1\<bar> \<le> 0.0001 * (\<bar>1\<bar> / 0.01 + \<bar>0 - 1\<bar> / 0.15)"
    by blast
  have "(0.0001::real) * (\<bar>1\<bar> / 0.01 + \<bar>0 - 1\<bar> / 0.15) \<le> 11 / 1000"
    by simp
  with xb have b: "\<bar>x - 1\<bar> \<le> 11 / 1000"
    by (rule order_trans)
  then have "1 - x \<le> 11 / 1000"
    by (simp only: abs_le_iff) linarith
  then have "\<not> x \<le> 1 / 100"
    by linarith
  with b have "\<bar>x - 1\<bar> \<le> 0.011" "\<not> x \<le> 0.01"
    by simp_all
  with x have 3: "\<exists>x. amplitude (env instrument_drumkick) (Fin 1.0099) (Fin 1) (Fin 0) = Fin x \<and>
        \<bar>x - 1\<bar> \<le> 0.011"
    by auto
  have "(0.01::real) + 0.15 < 2 - 1"
    by simp
  from sustain [OF this]
  have 4: "amplitude (env instrument_drumkick) (Fin 2) (Fin 1) (Fin 0) = Fin 0"
    by simp
  have 5: "dReleaseTime (env instrument_drumkick) = Fin 0"
    by (simp add: instrument_drumkick_def envelope_adsr_init_def)
  have i: "dAttackTime envelope_adsr_init = Fin 0.1" "dDecayTime envelope_adsr_init = Fin 0.1"
      "dSustainAmplitude envelope_adsr_init = Fin 1" "dStartAmplitude envelope_adsr_init = Fin 1"
      "(0::real) < 0.1" "(0::real) \<le> 0.1"
    by (simp_all add: envelope_adsr_init_def)
  have "dReleaseTime envelope_adsr_init = Fin 0.2 \<and> (0.2::real) \<noteq> 0"
    by (simp add: envelope_adsr_init_def)
  from adsr_held_regime [OF i, of 0 1, THEN conjunct2, rule_format, OF this]
  have 6: "amplitude envelope_adsr_init (Fin 2) (Fin 1) (Fin 1) = Fin 0"
    by blast
  from at_on 2 3 4 5 6 show ?thesis
    by blast
qed




text \<open>The final test of \<open>amplitude\<close>: no result is below 0 or in the interval (0, 0.01].\<close>

lemma amplitude_floor:
  "\<not> flt (amplitude e t tOn tOff) (Fin 0) \<and>
   \<not> (flt (Fin 0) (amplitude e t tOn tOff) \<and> fle (amplitude e t tOn tOff) (Fin 0.01))"
proof -
  have "\<not> flt x (Fin 0)" if "\<not> fle x (Fin 0.01)" for x
    using that by (cases x) auto
  then show ?thesis
    by (auto simp add: amplitude_def Let_def)
qed

text \<open>A note released after it reached the sustain level, the release time not 0.\<close>

lemma released_value:
  assumes "dAttackTime e = Fin a" and "dDecayTime e = Fin d"
    and "dSustainAmplitude e = Fin s" and "dReleaseTime e = Fin r"
    and "r \<noteq> 0" and "tOn \<le> T" and "a + d < T - tOn"
  shows "amplitude e (Fin t) (Fin tOn) (Fin T) =
           (if (t - T) / r * (0 - s) + s \<le> 0.01 then Fin 0
            else Fin ((t - T) / r * (0 - s) + s))"
  using assms by (simp add: amplitude_def Let_def)

lemma ramp_mono:
  fixes s r :: real
  assumes "0 < r" "T \<le> t1" "t1 \<le> t2" "t2 \<le> T + r" "0 \<le> s"
  shows "(t2 - T) / r * (0 - s) + s \<le> (t1 - T) / r * (0 - s) + s"
proof -
  define u1 where "u1 = (t1 - T) / r"
  define u2 where "u2 = (t2 - T) / r"
  have "u1 \<le> u2"
    using assms by (simp add: u1_def u2_def divide_right_mono)
  then have "u1 * s \<le> u2 * s"
    using \<open>0 \<le> s\<close> by (rule mult_right_mono)
  then have "u2 * (0 - s) + s \<le> u1 * (0 - s) + s"
    by simp
  then show ?thesis
    by (simp only: u1_def u2_def)
qed

lemma ramp_nonpos:
  fixes s r :: real
  assumes "0 < r" "T \<le> t" "t \<le> T + r" "s \<le> 0"
  shows "(t - T) / r * (0 - s) + s \<le> 0"
proof -
  have "(t - T) / r \<le> 1" using assms by simp
  moreover have "0 \<le> - s" using assms by simp
  ultimately have "(t - T) / r * (- s) \<le> 1 * (- s)"
    by (rule mult_right_mono)
  then show ?thesis by simp
qed

text \<open>
  C3. The claim is made for any envelope. The three drum envelopes have the release
  time 0: for the Drum Kick, held from 0 and released at \<open>T = 1\<close>, the amplitude at
  \<open>t = T + releaseTime\<close> is \<open>0 / 0\<close> times the release amplitude, NaN and not 0.
\<close>

theorem adsr_zero_release_nan:
  "dReleaseTime (env instrument_drumkick) = Fin 0 \<and>
   amplitude (env instrument_drumkick) (Fin (1 + 0)) (Fin 0) (Fin 1) = NaN"
  by (simp add: amplitude_def instrument_drumkick_def envelope_adsr_init_def Let_def
      inf_times_def)

text \<open>
  C3, as amended. For an envelope with finite parameters and a positive release time,
  held long enough to reach sustain (\<open>T - on > attack + decay\<close>) and released at
  \<open>T\<close>, the amplitude is monotonically non-increasing on \<open>[T, T + releaseTime]\<close> and is
  0 at \<open>T + releaseTime\<close>. For every envelope and every query, the returned amplitude
  is not negative and not in (0, 0.01].
\<close>

theorem adsr_release:
  assumes "dAttackTime e = Fin a" and "dDecayTime e = Fin d"
    and "dSustainAmplitude e = Fin s" and "dReleaseTime e = Fin r"
    and "0 < r" and "tOn \<le> T" and "a + d < T - tOn"
  shows "(\<forall>t1 t2. T \<le> t1 \<and> t1 \<le> t2 \<and> t2 \<le> T + r \<longrightarrow>
            fle (amplitude e (Fin t2) (Fin tOn) (Fin T))
                (amplitude e (Fin t1) (Fin tOn) (Fin T))) \<and>
         amplitude e (Fin (T + r)) (Fin tOn) (Fin T) = Fin 0 \<and>
         (\<forall>e' t' tOn' tOff'.
            \<not> flt (amplitude e' t' tOn' tOff') (Fin 0) \<and>
            \<not> (flt (Fin 0) (amplitude e' t' tOn' tOff') \<and>
               fle (amplitude e' t' tOn' tOff') (Fin 0.01)))"
proof -
  have r0: "r \<noteq> 0" using assms by simp
  note v = released_value [OF assms(1-4) r0 assms(6,7)]
  have mono: "fle (amplitude e (Fin t2) (Fin tOn) (Fin T))
                  (amplitude e (Fin t1) (Fin tOn) (Fin T))"
    if h: "T \<le> t1 \<and> t1 \<le> t2 \<and> t2 \<le> T + r" for t1 t2
  proof (cases "0 \<le> s")
    case True
    then have "(t2 - T) / r * (0 - s) + s \<le> (t1 - T) / r * (0 - s) + s"
      using ramp_mono [of r T t1 t2 s] assms h by simp
    then show ?thesis
      by (simp add: v)
  next
    case False
    then have "(t2 - T) / r * (0 - s) + s \<le> 0" "(t1 - T) / r * (0 - s) + s \<le> 0"
      using ramp_nonpos [of r T t2 s] ramp_nonpos [of r T t1 s] assms h by simp_all
    then show ?thesis
      by (simp add: v)
  qed
  have end0: "amplitude e (Fin (T + r)) (Fin tOn) (Fin T) = Fin 0"
    using r0 by (simp add: v)
  from mono end0 amplitude_floor show ?thesis
    by blast
qed

theorem adsr_release_witness:
  "fle (amplitude (env instrument_harmonica) (Fin 5.25) (Fin 0) (Fin 5))
       (amplitude (env instrument_harmonica) (Fin 5.125) (Fin 0) (Fin 5)) \<and>
   amplitude (env instrument_harmonica) (Fin (5 + 0.5)) (Fin 0) (Fin 5) = Fin 0 \<and>
   \<not> flt (amplitude (env instrument_harmonica) (Fin 5.25) (Fin 0) (Fin 5)) (Fin 0)"
proof -
  have e: "dAttackTime (env instrument_harmonica) = Fin 0"
      "dDecayTime (env instrument_harmonica) = Fin 1"
      "dSustainAmplitude (env instrument_harmonica) = Fin 0.95"
      "dReleaseTime (env instrument_harmonica) = Fin 0.5"
    by (simp_all add: instrument_harmonica_def envelope_adsr_init_def)
  have "(0::real) < 0.5" "(0::real) \<le> 5" "(0::real) + 1 < 5 - 0" by simp_all
  from adsr_release [OF e this] have
    a: "\<forall>t1 t2. 5 \<le> t1 \<and> t1 \<le> t2 \<and> t2 \<le> 5 + 0.5 \<longrightarrow>
            fle (amplitude (env instrument_harmonica) (Fin t2) (Fin 0) (Fin 5))
                (amplitude (env instrument_harmonica) (Fin t1) (Fin 0) (Fin 5))"
    and b: "amplitude (env instrument_harmonica) (Fin (5 + 0.5)) (Fin 0) (Fin 5) = Fin 0"
    and c: "\<not> flt (amplitude (env instrument_harmonica) (Fin 5.25) (Fin 0) (Fin 5)) (Fin 0)"
    by blast+
  have "fle (amplitude (env instrument_harmonica) (Fin 5.25) (Fin 0) (Fin 5))
       (amplitude (env instrument_harmonica) (Fin 5.125) (Fin 0) (Fin 5))"
    using a [rule_format, of "5.125" "5.25"] by simp
  with b c show ?thesis by blast
qed

section \<open>The mixer\<close>

text \<open>Every call of an instrument returns: the only loop of \<open>osc\<close> runs up to a literal bound.\<close>

lemma fadd_zero_right [simp]: "fadd x (Fin 0) = x"
  by (cases x) simp_all

lemma saw_ana_loop_total: "\<exists>y. saw_ana_loop (Fin c) dFreq (Fin n) dOutput = Some y"
proof (induction "nat \<lceil>c - n\<rceil>" arbitrary: n dOutput rule: less_induct)
  case less
  show ?case
  proof (cases "n < c")
    case True
    then have "nat \<lceil>c - (n + 1)\<rceil> < nat \<lceil>c - n\<rceil>"
      by linarith
    from less [OF this] show ?thesis
      using True by (subst saw_ana_loop.simps) simp
  next
    case False
    then show ?thesis
      by (subst saw_ana_loop.simps) simp
  qed
qed

lemma osc_total: "\<exists>v g'. osc g dTime dHertz nType dLFOHertz dLFOAmplitude (Fin c) = Some (v, g')"
proof -
  obtain y where
    "saw_ana_loop (Fin c)
       (fadd (fmul (w dHertz) dTime)
             (fmul (fmul dLFOAmplitude dHertz) (fsin (fmul (w dLFOHertz) dTime))))
       (Fin 1) (Fin 0) = Some y"
    using saw_ana_loop_total by blast
  then show ?thesis
    by (simp add: osc_def Let_def rand_def)
qed

lemma bind_osc:
  assumes "\<And>v g'. \<exists>r. f (v, g') = Some r"
  shows "\<exists>r. (osc g dTime dHertz nType dLFOHertz dLFOAmplitude (Fin c) \<bind> f) = Some r"
proof -
  obtain v g' where "osc g dTime dHertz nType dLFOHertz dLFOAmplitude (Fin c) = Some (v, g')"
    using osc_total by blast
  then show ?thesis
    using assms [of v g'] by simp
qed

lemma sound_total: "\<exists>r. sound pow inst dTime n b g = Some r"
  unfolding sound_def instrument_bell_sound_def instrument_bell8_sound_def
      instrument_harmonica_sound_def instrument_drumkick_sound_def
      instrument_drumsnare_sound_def instrument_drumhihat_sound_def Let_def
  by (cases "kind inst"; simp only: instrument_kind.case;
      (rule bind_osc | simp only: prod.case)+; blast)

lemma render_note_total: "\<exists>r. render_note pow dTime n g = Some r"
  using sound_total by (cases "channel n") (auto simp add: render_note_def)

lemma mix_loop_total: "\<exists>r. mix_loop pow dTime ns acc g = Some r"
proof (induction ns arbitrary: acc g)
  case Nil
  show ?case by simp
next
  case (Cons n ns)
  obtain dSound fin g1 where r: "render_note pow dTime n g = Some (dSound, fin, g1)"
    using render_note_total [of pow dTime n g] by auto
  obtain out ns1 g2 where "mix_loop pow dTime ns (fadd acc dSound) g1 = Some (out, ns1, g2)"
    using Cons.IH [of "fadd acc dSound" g1] by auto
  with r show ?case
    by simp
qed

lemma safe_remove_filter: "safe_remove v f = filter f v"
  by (induction v) simp_all

lemma mix_loop_samples:
  "mix_loop pow dTime ns acc g = Some (out, ns', g') \<Longrightarrow>
   \<exists>rs. samples pow dTime ns g = Some rs \<and> length rs = length ns \<and>
        out = foldl fadd acc (map fst rs) \<and>
        ns' = map (\<lambda>(n, r). if snd r then n\<lparr>active := False\<rparr> else n) (zip ns rs)"
proof (induction ns arbitrary: acc g out ns')
  case Nil
  then show ?case by simp
next
  case (Cons n ns)
  from Cons.prems obtain dSound fin g1 out1 ns1 where
    r: "render_note pow dTime n g = Some (dSound, fin, g1)"
    and m: "mix_loop pow dTime ns (fadd acc dSound) g1 = Some (out1, ns1, g')"
    and o: "out = out1" "ns' = (if fin then n\<lparr>active := False\<rparr> else n) # ns1"
    by (auto split: option.splits)
  from Cons.IH [OF m] obtain rs where
    "samples pow dTime ns g1 = Some rs" "length rs = length ns"
    "out1 = foldl fadd (fadd acc dSound) (map fst rs)"
    "ns1 = map (\<lambda>(n, r). if snd r then n\<lparr>active := False\<rparr> else n) (zip ns rs)"
    by blast
  with r o show ?case
    by simp
qed

lemma sweep_zip:
  "filter active (map (\<lambda>(n, r). if snd r then n\<lparr>active := False\<rparr> else n) ps) =
   map fst (filter (\<lambda>(n, r). active n \<and> \<not> snd r) ps)"
  by (induction ps) (auto split: if_splits)

lemma kept_nths:
  assumes "length rs = length ns"
  shows "map fst (filter (\<lambda>(n, r). active n \<and> \<not> snd r) (zip ns rs)) =
         nths ns {i. i < length ns \<and> active (ns ! i) \<and> \<not> snd (rs ! i)}"
proof -
  have "filter (\<lambda>(n, r). active n \<and> \<not> snd r) (zip ns rs) =
        nths (zip ns rs) {i. i < length ns \<and> active (ns ! i) \<and> \<not> snd (rs ! i)}"
    using assms by (simp add: filter_eq_nths split_beta cong: conj_cong)
  then show ?thesis
    using assms by (simp add: nths_map [symmetric])
qed

lemma MakeNoise_samples:
  "\<exists>rs g'. samples pow dTime registry g = Some rs \<and> length rs = length registry \<and>
     MakeNoise pow dTime registry g =
       Some (fmul (foldl fadd (Fin 0) (map fst rs)) (Fin 0.2),
             nths registry {i. i < length registry \<and> active (registry ! i) \<and> \<not> snd (rs ! i)},
             g')"
proof -
  obtain out ns' g' where m: "mix_loop pow dTime registry (Fin 0) g = Some (out, ns', g')"
    using mix_loop_total [of pow dTime registry "Fin 0" g] by auto
  from mix_loop_samples [OF m] obtain rs where
    rs: "samples pow dTime registry g = Some rs" "length rs = length registry"
    "out = foldl fadd (Fin 0) (map fst rs)"
    "ns' = map (\<lambda>(n, r). if snd r then n\<lparr>active := False\<rparr> else n) (zip registry rs)"
    by blast
  have "safe_remove ns' active = nths registry {i. i < length registry \<and> active (registry ! i) \<and> \<not> snd (rs ! i)}"
    using rs by (simp add: safe_remove_filter sweep_zip kept_nths)
  with m rs show ?thesis
    by (simp add: MakeNoise_def)
qed

text \<open>The value of the finished flag that an instrument returns.\<close>

lemma melodic_finished:
  assumes "kind inst = Bell \<or> kind inst = Bell8 \<or> kind inst = Harmonica"
    and "sound pow inst dTime n b g = Some (v, b', g')"
  shows "b' = (fle (amplitude (env inst) dTime (on n) (off n)) (Fin 0) \<or> b)"
  using assms
  by (auto simp add: sound_def instrument_bell_sound_def instrument_bell8_sound_def
      instrument_harmonica_sound_def synth_env_def Let_def bind_eq_Some_conv
      split: if_splits)

lemma drum_finished:
  assumes "kind inst = DrumKick \<or> kind inst = DrumSnare \<or> kind inst = DrumHiHat"
    and "sound pow inst dTime n b g = Some (v, b', g')"
  shows "b' = ((fgt (fMaxLifeTime inst) (Fin 0) \<and> fge (fsub dTime (on n)) (fMaxLifeTime inst)) \<or> b)"
  using assms
  by (auto simp add: sound_def instrument_drumkick_sound_def instrument_drumsnare_sound_def
      instrument_drumhihat_sound_def Let_def bind_eq_Some_conv
      split: if_splits)

lemma mix_loop_append:
  "mix_loop pow dTime (xs @ ys) acc g =
     (case mix_loop pow dTime xs acc g of
        None \<Rightarrow> None
      | Some (a1, xs', g1) \<Rightarrow>
          (case mix_loop pow dTime ys a1 g1 of
             None \<Rightarrow> None
           | Some (a2, ys', g2) \<Rightarrow> Some (a2, xs' @ ys', g2)))"
  by (induction xs arbitrary: acc g) (auto split: option.splits)

lemma samples_append:
  assumes "mix_loop pow dTime xs acc g = Some (a1, xs', g1)"
    and "samples pow dTime ys g1 = Some rs'"
  shows "\<exists>rs. samples pow dTime xs g = Some rs \<and> length rs = length xs \<and>
              samples pow dTime (xs @ ys) g = Some (rs @ rs')"
  using assms(1)
proof (induction xs arbitrary: acc g xs')
  case Nil
  then show ?case
    using assms(2) by simp
next
  case (Cons n xs)
  from Cons.prems obtain dSound fin g0 ns1 where
    r: "render_note pow dTime n g = Some (dSound, fin, g0)"
    and m: "mix_loop pow dTime xs (fadd acc dSound) g0 = Some (a1, ns1, g1)"
    by (auto split: option.splits)
  from Cons.IH [OF m] obtain rs where
    "samples pow dTime xs g0 = Some rs" "length rs = length xs"
    "samples pow dTime (xs @ ys) g0 = Some (rs @ rs')"
    by blast
  with r show ?case
    by simp
qed

text \<open>
  C4. One tick of \<open>MakeNoise\<close> returns, and the registry it leaves is made of the
  notes, in their order and unchanged, at the positions where the note was active and
  its instrument did not report finished during this tick. So a note whose instrument
  reported \<open>finished = true\<close> is gone when the tick returns. A later tick, at any
  time, obtains one report from each note of the registry that is left and from no
  other: it cannot render the removed note, nor receive a second report for it.
\<close>

theorem finished_notes_removed:
  "\<exists>rs out reg' g'.
     samples pow dTime registry g = Some rs \<and> length rs = length registry \<and>
     reg' = nths registry {i. i < length registry \<and> active (registry ! i) \<and> \<not> snd (rs ! i)} \<and>
     MakeNoise pow dTime registry g = Some (out, reg', g') \<and>
     (\<forall>dTime2 g2. \<exists>rs2 out2 reg2 g2'.
        samples pow dTime2 reg' g2 = Some rs2 \<and> length rs2 = length reg' \<and>
        MakeNoise pow dTime2 reg' g2 = Some (out2, reg2, g2'))"
proof -
  from MakeNoise_samples [of pow dTime registry g] obtain rs g' where
    1: "samples pow dTime registry g = Some rs" "length rs = length registry"
    "MakeNoise pow dTime registry g =
       Some (fmul (foldl fadd (Fin 0) (map fst rs)) (Fin 0.2),
             nths registry {i. i < length registry \<and> active (registry ! i) \<and> \<not> snd (rs ! i)},
             g')"
    by blast
  define reg' where
    "reg' = nths registry {i. i < length registry \<and> active (registry ! i) \<and> \<not> snd (rs ! i)}"
  have "\<exists>rs2 out2 reg2 g2'.
        samples pow dTime2 reg' g2 = Some rs2 \<and> length rs2 = length reg' \<and>
        MakeNoise pow dTime2 reg' g2 = Some (out2, reg2, g2')" for dTime2 g2
    using MakeNoise_samples [of pow dTime2 reg' g2] by blast
  with 1 show ?thesis
    unfolding reg'_def by blast
qed

theorem finished_notes_removed_witness:
  "\<exists>out g'.
     MakeNoise pow_exact (Fin 10)
       [note_init\<lparr>note_id := 64, on := Fin 0, off := Fin 5, active := True,
                  channel := Some instHarm\<rparr>,
        note_init\<lparr>active := True\<rparr>] (sconst 0) =
     Some (out, [note_init\<lparr>active := True\<rparr>], g')"
proof -
  define n1 where "n1 = note_init\<lparr>note_id := 64, on := Fin 0, off := Fin 5, active := True,
                  channel := Some instHarm\<rparr>"
  define n2 where "n2 = note_init\<lparr>active := True\<rparr>"
  from finished_notes_removed [of pow_exact "Fin 10" "[n1, n2]" "sconst 0"]
  obtain rs out g' where
    rs: "samples pow_exact (Fin 10) [n1, n2] (sconst 0) = Some rs"
    and mk: "MakeNoise pow_exact (Fin 10) [n1, n2] (sconst 0) =
       Some (out, nths [n1, n2] {i. i < length [n1, n2] \<and> active ([n1, n2] ! i) \<and> \<not> snd (rs ! i)}, g')"
    by auto
  obtain v b' g1 where snd1: "sound pow_exact instHarm (Fin 10) n1 False (sconst 0) = Some (v, b', g1)"
    using sound_total [of pow_exact instHarm "Fin 10" n1 False "sconst 0"] by auto
  have "fle (amplitude (env instHarm) (Fin 10) (on n1) (off n1)) (Fin 0)"
    by (simp add: n1_def note_init_def instHarm_def instrument_harmonica_def
        envelope_adsr_init_def amplitude_def Let_def)
  moreover have "kind instHarm = Harmonica"
    by (simp add: instHarm_def instrument_harmonica_def)
  ultimately have "b' = True"
    using melodic_finished [OF _ snd1] by simp
  with snd1 have "samples pow_exact (Fin 10) [n1, n2] (sconst 0) = Some [(v, True), (Fin 0, False)]"
    by (simp add: render_note_def n1_def n2_def note_init_def)
  with rs have "rs = [(v, True), (Fin 0, False)]"
    by simp
  then have "{i. i < length [n1, n2] \<and> active ([n1, n2] ! i) \<and> \<not> snd (rs ! i)} = {1}"
    by (auto simp add: less_Suc_eq numeral_2_eq_2 n2_def)
  then have "nths [n1, n2] {i. i < length [n1, n2] \<and> active ([n1, n2] ! i) \<and> \<not> snd (rs ! i)} = [n2]"
    by (simp add: nths_Cons)
  with mk have "MakeNoise pow_exact (Fin 10) [n1, n2] (sconst 0) = Some (out, [n2], g')"
    by simp
  then show ?thesis
    unfolding n1_def n2_def by blast
qed



text \<open>
  C10. The claim lets every note with a null instrument remain in the registry. The
  sweep at the end of \<open>MakeNoise\<close> keeps the notes whose \<open>active\<close> flag is set: a
  note as \<open>note()\<close> constructs it (null instrument, \<open>active = false\<close>) is removed by
  the first tick.
\<close>

theorem null_instrument_inactive_removed:
  "channel note_init = None \<and>
   MakeNoise pow_exact (Fin 0) [note_init] (sconst 0) = Some (Fin 0, [], sconst 0)"
  by (simp add: MakeNoise_def render_note_def note_init_def)

text \<open>
  C10, as amended. For a note \<open>n\<close> with a null instrument anywhere in the registry,
  the tick returns; the instrument call is skipped, so that the tick obtains the sample 0
  and no finished report from \<open>n\<close>; the returned sample and the generator state are
  those of the tick on the registry without \<open>n\<close>; and the registry that is left is the
  one left from the registry without \<open>n\<close>, with \<open>n\<close> at its place when its
  \<open>active\<close> flag is set, and without \<open>n\<close> when it is not.
\<close>

theorem null_instrument_note:
  assumes "channel n = None"
  shows "\<exists>o1 kp g1 out kq g' rs.
           MakeNoise pow dTime pre g = Some (o1, kp, g1) \<and>
           MakeNoise pow dTime (pre @ post) g = Some (out, kp @ kq, g') \<and>
           MakeNoise pow dTime (pre @ n # post) g =
             Some (out, kp @ (if active n then [n] else []) @ kq, g') \<and>
           samples pow dTime (pre @ n # post) g = Some rs \<and>
           length rs = length (pre @ n # post) \<and>
           rs ! length pre = (Fin 0, False)"
proof -
  obtain a1 pre' g1 where p: "mix_loop pow dTime pre (Fin 0) g = Some (a1, pre', g1)"
    using mix_loop_total [of pow dTime pre "Fin 0" g] by auto
  obtain a2 post' g2 where q: "mix_loop pow dTime post a1 g1 = Some (a2, post', g2)"
    using mix_loop_total [of pow dTime post a1 g1] by auto
  have r: "render_note pow dTime n g1 = Some (Fin 0, False, g1)"
    using assms by (simp add: render_note_def)
  obtain rp where rp: "samples pow dTime pre g = Some rp" "length rp = length pre"
    using mix_loop_samples [OF p] by blast
  obtain rq where rq: "samples pow dTime post g1 = Some rq" "length rq = length post"
    using mix_loop_samples [OF q] by blast
  have "samples pow dTime (n # post) g1 = Some ((Fin 0, False) # rq)"
    using r rq by simp
  from samples_append [OF p this] rp
  have s: "samples pow dTime (pre @ n # post) g = Some (rp @ (Fin 0, False) # rq)"
    by auto
  have "MakeNoise pow dTime pre g = Some (fmul a1 (Fin 0.2), safe_remove pre' active, g1)"
    using p by (simp add: MakeNoise_def)
  moreover have "MakeNoise pow dTime (pre @ post) g =
      Some (fmul a2 (Fin 0.2), safe_remove pre' active @ safe_remove post' active, g2)"
    using p q by (simp add: MakeNoise_def mix_loop_append safe_remove_filter)
  moreover have "MakeNoise pow dTime (pre @ n # post) g =
      Some (fmul a2 (Fin 0.2),
            safe_remove pre' active @ (if active n then [n] else []) @ safe_remove post' active, g2)"
    using p q r by (simp add: MakeNoise_def mix_loop_append safe_remove_filter)
  moreover have "length (rp @ (Fin 0, False) # rq) = length (pre @ n # post)"
    using rp rq by simp
  moreover have "(rp @ (Fin 0, False) # rq) ! length pre = (Fin 0, False)"
    using rp by (simp add: nth_append)
  ultimately show ?thesis
    using s by blast
qed

theorem null_instrument_note_witness:
  "MakeNoise pow_exact (Fin 1) [note_init\<lparr>active := True\<rparr>] (sconst 0) =
     Some (Fin 0, [note_init\<lparr>active := True\<rparr>], sconst 0)"
proof -
  have "channel (note_init\<lparr>active := True\<rparr>) = None"
    by (simp add: note_init_def)
  from null_instrument_note [OF this, of pow_exact "Fin 1" "[]" "sconst 0" "[]"]
  show ?thesis
    by (simp add: MakeNoise_def)
qed

section \<open>The keyboard handler\<close>

lemma sound_held:
  assumes "on n = on m" and "note_id n = note_id m"
    and "fgt (on n) (off n)" and "fgt (on m) (off m)"
  shows "sound pow inst t n b g = sound pow inst t m b g"
proof -
  have "synth_env t (env inst) (on n) (off n) = synth_env t (env inst) (on m) (off m)"
    using assms amplitude_held [of "on m" "off n" "off m" "env inst" t]
    by (simp add: synth_env_def)
  then show ?thesis
    using assms(1,2)
    by (cases "kind inst")
       (simp_all add: sound_def instrument_bell_sound_def instrument_bell8_sound_def
          instrument_harmonica_sound_def instrument_drumkick_sound_def
          instrument_drumsnare_sound_def instrument_drumhihat_sound_def)
qed

text \<open>
  C6. The claim compares the re-triggered note with a brand-new note with \<open>on = 6\<close>
  and any \<open>off \<le> on\<close>. At \<open>off = on = 6\<close> the new note is evaluated by the release
  branch: at \<open>t = 7\<close> the Harmonica envelope gives NaN for it (the attack time is 0 and
  the release amplitude is \<open>0 / 0\<close>), and 0.95 for the re-triggered note.
\<close>

theorem retrigger_equal_times_differs:
  "amplitude (env instHarm) (Fin 7) (Fin 6) (Fin 5) = Fin 0.95 \<and>
   amplitude (env instHarm) (Fin 7) (Fin 6) (Fin 6) = NaN"
  by (simp add: amplitude_def instHarm_def instrument_harmonica_def envelope_adsr_init_def
      Let_def fsub_def)

text \<open>
  C6, as amended. The key-down branch applied at \<open>time = 6\<close> to a registry holding the
  released note of the key (\<open>on = 0\<close>, \<open>off = 5\<close>) sets its \<open>on\<close> to 6 and keeps
  \<open>off = 5\<close>; applied to an empty registry it appends the new note with \<open>on = 6\<close> and
  the constructor's \<open>off = 0\<close>. At every time (in particular every \<open>t \<ge> 6\<close>) the
  re-triggered note has the same envelope amplitude, the same instrument result (sample,
  finished flag and generator state, for every incoming flag and generator state) and the
  same result in the loop of \<open>MakeNoise\<close> as a note of the same key with \<open>on = 6\<close> and
  any \<open>off < on\<close>, the new note among them.
\<close>

theorem retrigger_as_new:
  "\<exists>r. key_down k (Fin 6)
           [note_init\<lparr>note_id := k + 64, on := Fin 0, off := Fin 5, active := a,
                      channel := Some instHarm\<rparr>] = [r] \<and>
        on r = Fin 6 \<and> off r = Fin 5 \<and>
        key_down k (Fin 6) [] =
           [note_init\<lparr>note_id := k + 64, on := Fin 6, active := True,
                      channel := Some instHarm\<rparr>] \<and>
        off (note_init\<lparr>note_id := k + 64, on := Fin 6, active := True,
                      channel := Some instHarm\<rparr>) = Fin 0 \<and>
        (\<forall>tOff m. tOff < 6 \<and>
             m = note_init\<lparr>note_id := k + 64, on := Fin 6, off := Fin tOff, active := True,
                           channel := Some instHarm\<rparr> \<longrightarrow>
           (\<forall>t. amplitude (env instHarm) t (on r) (off r) =
                amplitude (env instHarm) t (on m) (off m)) \<and>
           (\<forall>pow t b g. sound pow instHarm t r b g = sound pow instHarm t m b g) \<and>
           (\<forall>pow t g. render_note pow t r g = render_note pow t m g))"
proof -
  define r where "r = note_init\<lparr>note_id := k + 64, on := Fin 6, off := Fin 5, active := True,
                        channel := Some instHarm\<rparr>"
  have 1: "key_down k (Fin 6)
             [note_init\<lparr>note_id := k + 64, on := Fin 0, off := Fin 5, active := a,
                        channel := Some instHarm\<rparr>] = [r]"
    by (simp add: key_down_def noteFound_def r_def note_init_def)
  have 2: "key_down k (Fin 6) [] =
           [note_init\<lparr>note_id := k + 64, on := Fin 6, active := True,
                      channel := Some instHarm\<rparr>]"
    by (simp add: key_down_def noteFound_def)
  have 3: "on r = Fin 6" "off r = Fin 5"
    "off (note_init\<lparr>note_id := k + 64, on := Fin 6, active := True,
                      channel := Some instHarm\<rparr>) = Fin 0"
    by (simp_all add: r_def note_init_def)
  have 4: "(\<forall>t. amplitude (env instHarm) t (on r) (off r) =
                amplitude (env instHarm) t (on m) (off m)) \<and>
           (\<forall>pow t b g. sound pow instHarm t r b g = sound pow instHarm t m b g) \<and>
           (\<forall>pow t g. render_note pow t r g = render_note pow t m g)"
    if "tOff < 6 \<and>
        m = note_init\<lparr>note_id := k + 64, on := Fin 6, off := Fin tOff, active := True,
                      channel := Some instHarm\<rparr>" for tOff m
  proof -
    have m: "on m = on r" "note_id m = note_id r" "channel m = channel r"
        "channel r = Some instHarm" "fgt (on r) (off r)" "fgt (on m) (off m)"
      using that by (simp_all add: r_def note_init_def)
    have "amplitude (env instHarm) t (on r) (off r) =
          amplitude (env instHarm) t (on m) (off m)" for t
      using amplitude_held [of "on r" "off r" "off m"] m by simp
    moreover have s: "sound pow instHarm t r b g = sound pow instHarm t m b g" for pow t b g
      using sound_held [of r m] m by simp
    moreover have "render_note pow t r g = render_note pow t m g" for pow t g
      using s m by (simp add: render_note_def)
    ultimately show ?thesis
      by blast
  qed
  from 1 2 3 4 show ?thesis
    by blast
qed

theorem retrigger_as_new_witness:
  "\<exists>r. key_down 0 (Fin 6)
           [note_init\<lparr>note_id := 0 + 64, on := Fin 0, off := Fin 5, active := True,
                      channel := Some instHarm\<rparr>] = [r] \<and>
        off r = Fin 5 \<and>
        amplitude (env instHarm) (Fin 7) (on r) (off r) =
          amplitude (env instHarm) (Fin 7) (Fin 6) (Fin 0) \<and>
        sound pow_exact instHarm (Fin 7) r False (sconst 0) =
          sound pow_exact instHarm (Fin 7)
            (note_init\<lparr>note_id := 0 + 64, on := Fin 6, off := Fin 0, active := True,
                       channel := Some instHarm\<rparr>) False (sconst 0)"
proof -
  define m where "m = note_init\<lparr>note_id := 0 + 64, on := Fin 6, off := Fin 0, active := True,
                       channel := Some instHarm\<rparr>"
  from retrigger_as_new [of 0 True] obtain r where
    r: "key_down 0 (Fin 6)
           [note_init\<lparr>note_id := 0 + 64, on := Fin 0, off := Fin 5, active := True,
                      channel := Some instHarm\<rparr>] = [r]"
    and o: "off r = Fin 5"
    and all: "\<forall>tOff m. tOff < 6 \<and>
             m = note_init\<lparr>note_id := 0 + 64, on := Fin 6, off := Fin tOff, active := True,
                           channel := Some instHarm\<rparr> \<longrightarrow>
           (\<forall>t. amplitude (env instHarm) t (on r) (off r) =
                amplitude (env instHarm) t (on m) (off m)) \<and>
           (\<forall>pow t b g. sound pow instHarm t r b g = sound pow instHarm t m b g) \<and>
           (\<forall>pow t g. render_note pow t r g = render_note pow t m g)"
    by (elim exE conjE)
  have "(0::real) < 6 \<and> m = note_init\<lparr>note_id := 0 + 64, on := Fin 6, off := Fin 0, active := True,
                       channel := Some instHarm\<rparr>"
    unfolding m_def by simp
  note inst = all [rule_format, OF this]
  have a: "amplitude (env instHarm) (Fin 7) (on r) (off r) =
       amplitude (env instHarm) (Fin 7) (on m) (off m)"
    using inst [THEN conjunct1] by (rule spec)
  have s: "sound pow_exact instHarm (Fin 7) r False (sconst 0) =
       sound pow_exact instHarm (Fin 7) m False (sconst 0)"
    using inst [THEN conjunct2, THEN conjunct1] by (elim allE)
  have "on m = Fin 6" "off m = Fin 0"
    by (simp_all add: m_def)
  with a have a': "amplitude (env instHarm) (Fin 7) (on r) (off r) =
       amplitude (env instHarm) (Fin 7) (Fin 6) (Fin 0)"
    by simp
  from r o a' s [unfolded m_def] show ?thesis
    by (intro exI [of _ r] conjI)
qed

text \<open>
  C7. The key-up branch dereferences \<open>noteFound\<close> without comparing it with
  \<open>vecNotes.end()\<close>, the test that the key-down branch makes first. On a registry
  with no note of the key (here the empty one) the source reads and may write through
  the end iterator, which is undefined behaviour and not the silent no-op of the claim.
\<close>

theorem key_up_without_note:
  "noteFound 0 [] = None \<and> key_up 0 (Fin 1) [] = Inl EndDereference \<and>
   key_down 0 (Fin 1) [] =
     [note_init\<lparr>note_id := 64, on := Fin 1, active := True, channel := Some instHarm\<rparr>]"
  by (simp add: key_up_def key_down_def noteFound_def)

text \<open>The rest of the key-up branch: a found note that is not held is left as it is.\<close>

lemma key_up_released:
  assumes "noteFound k registry = Some i"
    and "\<not> flt (off (registry ! i)) (on (registry ! i))"
  shows "key_up k time registry = Inr registry"
  using assms by (simp add: key_up_def)

section \<open>One bar of the sequencer\<close>

text \<open>The sequencer as \<open>sequencer(120, 4, 4)\<close> constructs it: 16 steps of 0.125 s.\<close>

lemma sequencer_init_120: "sequencer_init (Fin 120) 4 4 =
   \<lparr>nBeats = 4, nSubBeats = 4, fTempo = Fin 120, fBeatTime = Fin 0.125, fAccumulate = Fin 0,
    nCurrentBeat = 0, nTotalBeats = 16, vecChannel = [], vecNotes = []\<rparr>"
  by (simp add: sequencer_init_def)

text \<open>
  C8. With tempo 120, 4 beats and 4 sub-beats, the sub-beat lasts 0.125 s and there
  are 16 steps. With one channel whose pattern of 16 characters has its only \<open>X\<close> at
  step 0, \<open>Update\<close> fed 2.0 seconds in one call returns 1 and leaves one note in the
  sequencer's \<open>vecNotes\<close> (the note is emitted when the counter wraps to step 0) and
  the step counter at its starting value; fed the same 2.0 seconds as 16 calls of
  0.125 s, it returns 1 in total and leaves the counter at its starting value, too. The
  channel is written as it is after \<open>AddInstrument\<close> and the assignment of its
  \<open>sBeat\<close>.
\<close>

theorem sequencer_one_bar:
  assumes "length p = 16" and "p ! 0 = CHR ''X''"
    and "\<forall>i. 1 \<le> i \<and> i < 16 \<longrightarrow> p ! i \<noteq> CHR ''X''"
  shows "fBeatTime (sequencer_init (Fin 120) 4 4) = Fin 0.125 \<and>
         nTotalBeats (sequencer_init (Fin 120) 4 4) = 16 \<and>
         (\<exists>s'. Update (Fin 2.0)
                ((sequencer_init (Fin 120) 4 4)\<lparr>vecChannel := [\<lparr>instrument = inst, sBeat = p\<rparr>]\<rparr>) =
              Some (Inr (1, s')) \<and>
              nCurrentBeat s' = nCurrentBeat (sequencer_init (Fin 120) 4 4) \<and>
              vecNotes s' = [note_init\<lparr>channel := inst, active := True, note_id := 64\<rparr>]) \<and>
         (\<exists>s'. feed [Fin 0.125, Fin 0.125, Fin 0.125, Fin 0.125,
                     Fin 0.125, Fin 0.125, Fin 0.125, Fin 0.125,
                     Fin 0.125, Fin 0.125, Fin 0.125, Fin 0.125,
                     Fin 0.125, Fin 0.125, Fin 0.125, Fin 0.125] 0
                ((sequencer_init (Fin 120) 4 4)\<lparr>vecChannel := [\<lparr>instrument = inst, sBeat = p\<rparr>]\<rparr>) =
              Some (Inr (1, s')) \<and>
              nCurrentBeat s' = nCurrentBeat (sequencer_init (Fin 120) 4 4))"
proof -
  have ne: "(p ! i = CHR ''X'') = False" if "1 \<le> i" "i < 16" for i
    using assms(3) that by simp
  have 1: "\<exists>s'. Update (Fin 2.0)
                ((sequencer_init (Fin 120) 4 4)\<lparr>vecChannel := [\<lparr>instrument = inst, sBeat = p\<rparr>]\<rparr>) =
              Some (Inr (1, s')) \<and>
              nCurrentBeat s' = nCurrentBeat (sequencer_init (Fin 120) 4 4) \<and>
              vecNotes s' = [note_init\<lparr>channel := inst, active := True, note_id := 64\<rparr>]"
    using assms(1,2)
    by (simp add: Update_def sequencer_init_120 update_loop.simps Let_def wstring_at_def vector_at_def ne)
  have 2: "\<exists>s'. feed [Fin 0.125, Fin 0.125, Fin 0.125, Fin 0.125,
                     Fin 0.125, Fin 0.125, Fin 0.125, Fin 0.125,
                     Fin 0.125, Fin 0.125, Fin 0.125, Fin 0.125,
                     Fin 0.125, Fin 0.125, Fin 0.125, Fin 0.125] 0
                ((sequencer_init (Fin 120) 4 4)\<lparr>vecChannel := [\<lparr>instrument = inst, sBeat = p\<rparr>]\<rparr>) =
              Some (Inr (1, s')) \<and>
              nCurrentBeat s' = nCurrentBeat (sequencer_init (Fin 120) 4 4)"
    using assms(1,2)
    by (simp add: Update_def sequencer_init_120 update_loop.simps Let_def wstring_at_def vector_at_def ne)
  from 1 2 show ?thesis
    by (simp add: sequencer_init_120)
qed

theorem sequencer_one_bar_witness:
  "\<exists>s'. Update (Fin 2.0)
          ((sequencer_init (Fin 120) 4 4)
             \<lparr>vecChannel := [\<lparr>instrument = Some instrument_drumkick, sBeat = ''X...............''\<rparr>]\<rparr>) =
        Some (Inr (1, s')) \<and> nCurrentBeat s' = 0"
proof -
  have pat: "''X...............'' = CHR ''X'' # replicate 15 (CHR ''.'')"
    by code_simp
  have "''X...............'' ! i \<noteq> CHR ''X''" if "1 \<le> i \<and> i < 16" for i
  proof -
    from that obtain j where j: "i = Suc j" "j < 15"
      by (cases i) auto
    then show ?thesis
      unfolding pat by simp
  qed
  then have "\<forall>i. 1 \<le> i \<and> i < 16 \<longrightarrow> ''X...............'' ! i \<noteq> CHR ''X''"
    by blast
  moreover have "length ''X...............'' = 16" "''X...............'' ! 0 = CHR ''X''"
    by simp_all
  ultimately have
    "\<exists>s'. Update (Fin 2.0)
          ((sequencer_init (Fin 120) 4 4)
             \<lparr>vecChannel := [\<lparr>instrument = Some instrument_drumkick, sBeat = ''X...............''\<rparr>]\<rparr>) =
        Some (Inr (1, s')) \<and>
        nCurrentBeat s' = nCurrentBeat (sequencer_init (Fin 120) 4 4) \<and>
        vecNotes s' = [note_init\<lparr>channel := Some instrument_drumkick, active := True, note_id := 64\<rparr>]"
    using sequencer_one_bar [of "''X...............''" "Some instrument_drumkick"]
    by blast
  then show ?thesis
    by (auto simp add: sequencer_init_def)
qed

end
